theory Spec2Isabelle
  imports Complex_Main "HOL-Library.Word"
begin

section \<open>The augmented-reality scene of \<^verbatim>\<open>scene.cc\<close>\<close>

text \<open>
  The development embeds \<^verbatim>\<open>src/prototype/src/main/jni/scene.cc\<close>: the colour
  converter \<^verbatim>\<open>Yuv2Rgb\<close>, and the member functions of \<^verbatim>\<open>Scene\<close>. The member
  variables of the class carry a trailing underscore in the source
  (\<^verbatim>\<open>yuv_width_\<close>); a record field cannot end in an underscore, so the fields below
  drop it and keep the rest of the name.

  Conventions of the embedding:
  \<^item> a member function takes the scene and returns the scene it leaves behind;
  \<^item> what a function sends to the outside (a line for \<^verbatim>\<open>LOGE\<close>, a call of the GL
    or of a drawable of \<^verbatim>\<open>tango_gl\<close>) is a list of events, returned in call order;
  \<^item> an access outside an array (a vector read, a store into a matrix, a \<^verbatim>\<open>memcpy\<close>
    longer than an array) has no value the source determines; the model returns a
    \<open>fault\<close> there (\<open>Inl\<close>) instead of a value;
  \<^item> a conversion of a \<^verbatim>\<open>double\<close> to \<^verbatim>\<open>uint8_t\<close> stores the low eight bits of the
    truncated value, and a \<^verbatim>\<open>float\<close> division by zero gives an infinity or a NaN,
    as the compiled code does;
  \<^item> \<^verbatim>\<open>size_t\<close> quantities are natural numbers (no claim depends on their width);
  \<^item> \<^verbatim>\<open>float\<close> and \<^verbatim>\<open>double\<close> quantities are real numbers: the rounding of the
    IEEE operations is not modelled.

  \<^verbatim>\<open>DeleteResources\<close> (it frees the drawables) and \<^verbatim>\<open>OnTouchEvent\<close> (it forwards
  its arguments to the camera) have no part in what follows and are left out. The locks
  (\<^verbatim>\<open>yuv_buffer_mutex_\<close>, \<^verbatim>\<open>depth_mutex_\<close>) are not modelled: every function below is
  the sequential run of one call.
\<close>

subsection \<open>Basic types\<close>

type_synonym uint8_t = "8 word"

text \<open>\<^verbatim>\<open>cv::Vec3b\<close>: three bytes, channels 0, 1, 2.\<close>
type_synonym Vec3b = "uint8_t \<times> uint8_t \<times> uint8_t"

type_synonym vec3 = "real \<times> real \<times> real"

text \<open>\<^verbatim>\<open>glm::quat(w, x, y, z)\<close>.\<close>
type_synonym quat = "real \<times> real \<times> real \<times> real"

datatype fault = OutOfBoundsRead | OutOfBoundsWrite

text \<open>\<^verbatim>\<open>v[i]\<close> on a \<^verbatim>\<open>std::vector\<close>: no bounds check in the source.\<close>
definition vec_at :: "'a list \<Rightarrow> nat \<Rightarrow> fault + 'a" where
  "vec_at xs i = (if i < length xs then Inr (xs ! i) else Inl OutOfBoundsRead)"

subsection \<open>The colour converter\<close>

text \<open>Conversion of a floating value to an integer type truncates toward zero.\<close>
definition trunc :: "real \<Rightarrow> int" where
  "trunc x = (if 0 \<le> x then \<lfloor>x\<rfloor> else \<lceil>x\<rceil>)"

text \<open>
  The assignment \<^verbatim>\<open>*r = <double expression>\<close> converts a \<^verbatim>\<open>double\<close> to
  \<^verbatim>\<open>uint8_t\<close>, with no clamp and no test before it: the value is truncated and the
  low eight bits of the integer are stored.
\<close>
definition to_uint8 :: "real \<Rightarrow> uint8_t" where
  "to_uint8 x = word_of_int (trunc x)"

definition Yuv2Rgb :: "uint8_t \<Rightarrow> uint8_t \<Rightarrow> uint8_t \<Rightarrow> Vec3b" where
  "Yuv2Rgb yValue uValue vValue =
     (to_uint8 (real (unat yValue) + (1.370705 * (real (unat vValue) - 128))),
      to_uint8 (real (unat yValue) - (0.698001 * (real (unat vValue) - 128))
                 - (0.337633 * (real (unat uValue) - 128))),
      to_uint8 (real (unat yValue) + (1.732446 * (real (unat uValue) - 128))))"

subsection \<open>Images\<close>

text \<open>
  \<^verbatim>\<open>cv::Mat(rows, cols, CV_8UC3)\<close>: a continuous row-major array of
  \<open>rows * cols\<close> pixels. The content of a fresh matrix is indeterminate in OpenCV; the
  model fills it with zero pixels.
\<close>
record Mat =
  mat_rows :: nat
  mat_cols :: nat
  mat_data :: "Vec3b list"

definition Mat_create :: "nat \<Rightarrow> nat \<Rightarrow> Mat" where
  "Mat_create r c = \<lparr>mat_rows = r, mat_cols = c, mat_data = replicate (r * c) (0, 0, 0)\<rparr>"

text \<open>\<^verbatim>\<open>m.at<cv::Vec3b>(i, j)\<close> as a value.\<close>
definition Mat_at :: "Mat \<Rightarrow> nat \<Rightarrow> nat \<Rightarrow> Vec3b" where
  "Mat_at m i j = mat_data m ! (i * mat_cols m + j)"

text \<open>\<^verbatim>\<open>m.at<cv::Vec3b>(i, j) = v\<close>: a store, inside the matrix or a fault.\<close>
definition Mat_at_put :: "Mat \<Rightarrow> nat \<Rightarrow> nat \<Rightarrow> Vec3b \<Rightarrow> fault + Mat" where
  "Mat_at_put m i j v =
     (if i < mat_rows m \<and> j < mat_cols m \<and> i * mat_cols m + j < length (mat_data m)
      then Inr (m\<lparr>mat_data := (mat_data m)[i * mat_cols m + j := v]\<rparr>)
      else Inl OutOfBoundsWrite)"

subsection \<open>Collaborators: drawables, the camera, the GL\<close>

text \<open>
  The drawables and the camera are classes of \<^verbatim>\<open>tango_gl\<close> and of the headers of this
  application; their code is not part of \<^verbatim>\<open>scene.cc\<close>. A drawable is modelled by the
  fields its setters assign. The only object ever passed to \<^verbatim>\<open>SetParent\<close> is the axis.
\<close>

datatype drawable_id =
  DepthDrawable | YUVDrawable | Axis | Frustum | Trace | Grid | Cube | PointCloudDrawable

record Drawable =
  texture_id :: nat
  parent :: "drawable_id option"
  scale :: vec3
  position :: vec3
  rotation :: quat
  color :: vec3

text \<open>
  A new drawable: the texture id its constructor obtained from the GL (0 for a drawable
  without a texture), and the identity transform of \<^verbatim>\<open>tango_gl::Transform\<close>.
\<close>
definition new_Drawable :: "nat \<Rightarrow> Drawable" where
  "new_Drawable tex =
     \<lparr>texture_id = tex, parent = None, scale = (1, 1, 1), position = (0, 0, 0),
      rotation = (1, 0, 0, 0), color = (0, 0, 0)\<rparr>"

definition GetTextureId :: "Drawable \<Rightarrow> nat" where
  "GetTextureId d = texture_id d"

definition SetParent :: "Drawable \<Rightarrow> drawable_id option \<Rightarrow> Drawable" where
  "SetParent d p = d\<lparr>parent := p\<rparr>"

definition SetScale :: "Drawable \<Rightarrow> vec3 \<Rightarrow> Drawable" where
  "SetScale d v = d\<lparr>scale := v\<rparr>"

definition SetPosition :: "Drawable \<Rightarrow> vec3 \<Rightarrow> Drawable" where
  "SetPosition d v = d\<lparr>position := v\<rparr>"

definition SetRotation :: "Drawable \<Rightarrow> quat \<Rightarrow> Drawable" where
  "SetRotation d q = d\<lparr>rotation := q\<rparr>"

definition SetColor :: "Drawable \<Rightarrow> vec3 \<Rightarrow> Drawable" where
  "SetColor d c = d\<lparr>color := c\<rparr>"

datatype CameraType = kFirstPerson | kThirdPerson | kTopDown

text \<open>
  The result of a \<^verbatim>\<open>float\<close> division: the divisor can be zero in \<^verbatim>\<open>SetupViewPort\<close>,
  where IEEE arithmetic gives an infinity or a NaN.
\<close>
datatype float_value = Finite real | PlusInfinity | MinusInfinity | NaN

definition float_div :: "int \<Rightarrow> int \<Rightarrow> float_value" where
  "float_div w h =
     (if h \<noteq> 0 then Finite (real_of_int w / real_of_int h)
      else if 0 < w then PlusInfinity
      else if w < 0 then MinusInfinity
      else NaN)"

record GestureCamera =
  camera_type :: CameraType
  aspect_ratio :: float_value

definition GetCameraType :: "GestureCamera \<Rightarrow> CameraType" where
  "GetCameraType c = camera_type c"

definition SetAspectRatio :: "GestureCamera \<Rightarrow> float_value \<Rightarrow> GestureCamera" where
  "SetAspectRatio c a = c\<lparr>aspect_ratio := a\<rparr>"

type_synonym vec4 = "real \<times> real \<times> real \<times> real"

text \<open>The pose: four columns, \<^verbatim>\<open>m[3]\<close> the last.\<close>
type_synonym pose = "vec4 \<times> vec4 \<times> vec4 \<times> vec4"

text \<open>
  The matrices handed to the \<^verbatim>\<open>Render\<close> methods of the drawables. Their values are
  computed outside \<^verbatim>\<open>scene.cc\<close>; an event names the matrix that was passed.
\<close>
datatype matrix =
    Identity
  | ArCameraProjectionMatrix
  | GestureCameraViewMatrix
  | GestureCameraProjectionMatrix
  | PointCloudTransformation

datatype gl_format = GL_RGB | GL_DEPTH_COMPONENT
datatype gl_attachment = GL_COLOR_ATTACHMENT0 | GL_DEPTH_ATTACHMENT
datatype gl_cap = GL_DEPTH_TEST | GL_BLEND
datatype gl_target = GL_FRAMEBUFFER | GL_READ_FRAMEBUFFER | GL_DRAW_FRAMEBUFFER
datatype gl_bit = GL_DEPTH_BUFFER_BIT | GL_COLOR_BUFFER_BIT

text \<open>
  What a member function sends out, in call order: a line of the error log (format
  string and arguments), a call of the GL, a call of a method that \<^verbatim>\<open>tango_gl\<close>
  computes.
\<close>
datatype event =
    LOGE string "nat list"
  | glViewport int int int int
  | glBindTexture nat
  | glTexImage2D gl_format nat nat "Vec3b list option"
  | glGenTextures
  | glGenFramebuffers
  | glBindFramebuffer gl_target nat
  | glFramebufferTexture2D gl_attachment nat
  | glCheckFramebufferStatus
  | glEnable gl_cap
  | glDisable gl_cap
  | glClearColor
  | glClear "gl_bit list"
  | glBlendFunc
  | glBlitFramebuffer "gl_bit list"
  | UpdateVertexArray vec3
  | SetTransformationMatrix drawable_id pose
  | CameraSetTransformationMatrix pose
  | CameraSetAnchorPosition vec3
  | RenderDrawable drawable_id matrix matrix
  | RenderPointCloud matrix matrix matrix "real list"

definition GL_FRAMEBUFFER_COMPLETE :: nat where
  "GL_FRAMEBUFFER_COMPLETE = 36053"

text \<open>
  What the outside answers during \<^verbatim>\<open>InitGLContent\<close>: the texture ids the constructors
  of the two textured drawables obtain, the names generated by \<^verbatim>\<open>glGenTextures\<close> and
  \<^verbatim>\<open>glGenFramebuffers\<close>, the status of the framebuffer, and the camera that
  \<^verbatim>\<open>new tango_gl::GestureCamera()\<close> builds.
\<close>
record init_replies =
  depth_drawable_texture :: nat
  gen_texture :: nat
  gen_framebuffer :: nat
  framebuffer_status :: nat
  yuv_drawable_texture :: nat
  new_GestureCamera :: GestureCamera

subsection \<open>Inputs of the callbacks\<close>

datatype TangoImageFormatType =
    TANGO_HAL_PIXEL_FORMAT_RGBA_8888
  | TANGO_HAL_PIXEL_FORMAT_YV12
  | TANGO_HAL_PIXEL_FORMAT_YCrCb_420_SP

text \<open>\<^verbatim>\<open>TangoImageBuffer\<close>; \<open>data\<close> is the array the pointer \<^verbatim>\<open>buffer->data\<close> refers to.\<close>
record TangoImageBuffer =
  width :: nat
  height :: nat
  format :: TangoImageFormatType
  data :: "uint8_t list"


subsection \<open>The scene\<close>

record Scene =
  depth_frame :: Mat
  depth_drawable :: Drawable
  depth_frame_buffer_depth_texture :: nat
  depth_frame_buffer :: nat
  yuv_drawable :: Drawable
  gesture_camera :: GestureCamera
  axis :: Drawable
  frustum :: Drawable
  trace :: Drawable
  grid :: Drawable
  cube :: Drawable
  point_cloud_drawable :: Drawable
  camera_image_plane_ratio :: real
  image_plane_distance :: real
  is_yuv_texture_available :: bool
  swap_buffer_signal :: bool
  yuv_width :: nat
  yuv_height :: nat
  uv_buffer_offset :: nat
  yuv_size :: nat
  yuv_buffer :: "uint8_t list"
  yuv_temp_buffer :: "uint8_t list"
  rgb_buffer :: "uint8_t list"
  rgb_frame :: Mat
  vertices :: "real list"

definition kHeightOffset :: vec3 where "kHeightOffset = (0, 0, 0)"
definition kTraceColor :: vec3 where "kTraceColor = (0.22, 0.28, 0.67)"
definition kGridColor :: vec3 where "kGridColor = (0.85, 0.85, 0.85)"
definition kCubeRotation :: quat where "kCubeRotation = (0, 0, 1, 0)"
definition kCubePosition :: vec3 where "kCubePosition = (0, 0, -1)"
definition kCubeScale :: vec3 where "kCubeScale = (0.05, 0.05, 0.05)"
definition kCubeColor :: vec3 where "kCubeColor = (1, 0, 0)"

subsection \<open>\<^verbatim>\<open>InitGLContent\<close>, \<^verbatim>\<open>SetupViewPort\<close>, \<^verbatim>\<open>SetCameraType\<close>\<close>

definition InitGLContent :: "Scene \<Rightarrow> init_replies \<Rightarrow> event list \<times> Scene" where
  "InitGLContent s gl =
     (let s1 = s\<lparr>depth_frame := Mat_create 1280 720,
                 depth_drawable := new_Drawable (depth_drawable_texture gl)\<rparr>;
          ev1 = [glBindTexture (GetTextureId (depth_drawable s1)),
                 glTexImage2D GL_RGB (mat_rows (depth_frame s1)) (mat_cols (depth_frame s1)) None];
          s2 = s1\<lparr>depth_frame_buffer_depth_texture := gen_texture gl\<rparr>;
          ev2 = [glGenTextures,
                 glBindTexture (depth_frame_buffer_depth_texture s2),
                 glTexImage2D GL_DEPTH_COMPONENT
                   (mat_rows (depth_frame s2)) (mat_cols (depth_frame s2)) None];
          s3 = s2\<lparr>depth_frame_buffer := gen_framebuffer gl\<rparr>;
          ev3 = [glGenFramebuffers,
                 glBindFramebuffer GL_FRAMEBUFFER (depth_frame_buffer s3),
                 glFramebufferTexture2D GL_COLOR_ATTACHMENT0 (GetTextureId (depth_drawable s3)),
                 glFramebufferTexture2D GL_DEPTH_ATTACHMENT (depth_frame_buffer_depth_texture s3),
                 glCheckFramebufferStatus];
          status = framebuffer_status gl;
          ev4 = (if status \<noteq> GL_FRAMEBUFFER_COMPLETE
                 then [LOGE ''ERROR %d in fb %d '' [depth_frame_buffer s3]] else []);
          s4 = s3\<lparr>yuv_drawable := new_Drawable (yuv_drawable_texture gl),
                  gesture_camera := new_GestureCamera gl,
                  axis := new_Drawable 0,
                  frustum := new_Drawable 0,
                  trace := new_Drawable 0,
                  grid := new_Drawable 0,
                  cube := new_Drawable 0,
                  point_cloud_drawable := new_Drawable 0\<rparr>;
          s5 = s4\<lparr>trace := SetColor (trace s4) kTraceColor,
                  grid := SetPosition (SetColor (grid s4) kGridColor)
                            (case kHeightOffset of (x, y, z) \<Rightarrow> (- x, - y, - z)),
                  cube := SetColor (SetRotation (SetScale (SetPosition (cube s4) kCubePosition)
                            kCubeScale) kCubeRotation) kCubeColor\<rparr>;
          s6 = s5\<lparr>gesture_camera := (gesture_camera s5)\<lparr>camera_type := kThirdPerson\<rparr>\<rparr>
      in (ev1 @ ev2 @ ev3 @ ev4, s6))"

definition SetupViewPort :: "Scene \<Rightarrow> int \<Rightarrow> int \<Rightarrow> int \<Rightarrow> int \<Rightarrow> event list \<times> Scene" where
  "SetupViewPort s x y w h =
     (let ev1 = (if h = 0 then [LOGE ''Setup graphic height not valid'' []] else []);
          s1 = s\<lparr>gesture_camera := SetAspectRatio (gesture_camera s) (float_div w h)\<rparr>
      in (ev1 @ [glViewport x y w h], s1))"

definition SetCameraType :: "Scene \<Rightarrow> CameraType \<Rightarrow> Scene" where
  "SetCameraType s t =
     (let s1 = s\<lparr>gesture_camera := (gesture_camera s)\<lparr>camera_type := t\<rparr>\<rparr>;
          s2 = s1\<lparr>depth_drawable :=
                    SetRotation (SetPosition (SetScale (SetParent (depth_drawable s1) None)
                      (0.3, 0.3, 0.3)) (0.6, - 0.6, 0)) (1, 0, 0, 0)\<rparr>
      in if t = kFirstPerson
         then s2\<lparr>yuv_drawable :=
                    SetRotation (SetPosition (SetScale (SetParent (yuv_drawable s2) None)
                      (1, 1, 1)) (0, 0, 0)) (1, 0, 0, 0)\<rparr>
         else s2\<lparr>yuv_drawable :=
                    SetParent (SetPosition (SetRotation (SetScale (yuv_drawable s2)
                      (1, camera_image_plane_ratio s2, 1)) (1, 0, 0, 0))
                      (0, 0, - image_plane_distance s2)) (Some Axis)\<rparr>)"

subsection \<open>The video callback: \<^verbatim>\<open>OnFrameAvailable\<close>\<close>

text \<open>\<^verbatim>\<open>v.resize(n)\<close>: keeps the first elements, fills with zero bytes.\<close>
definition resize :: "uint8_t list \<Rightarrow> nat \<Rightarrow> uint8_t list" where
  "resize v n = take n v @ replicate (n - length v) 0"

text \<open>
  \<^verbatim>\<open>memcpy(&dst[0], src, n)\<close>: reads \<open>n\<close> bytes of \<open>src\<close> and writes them at the start
  of \<open>dst\<close>. Nothing in the source compares \<open>n\<close> with the size of either array.
\<close>
definition memcpy :: "uint8_t list \<Rightarrow> uint8_t list \<Rightarrow> nat \<Rightarrow> fault + uint8_t list" where
  "memcpy dst src n =
     (if length src < n then Inl OutOfBoundsRead
      else if length dst < n then Inl OutOfBoundsWrite
      else Inr (take n src @ drop n dst))"

definition OnFrameAvailable :: "Scene \<Rightarrow> TangoImageBuffer \<Rightarrow> fault + event list \<times> Scene" where
  "OnFrameAvailable s buffer =
     (if GetTextureId (yuv_drawable s) = 0 then Inr ([LOGE ''yuv texture id not valid'' []], s)
      else if format buffer \<noteq> TANGO_HAL_PIXEL_FORMAT_YCrCb_420_SP
      then Inr ([LOGE ''yuv texture format is not supported by this app'' []], s)
      else
        let (ev1, s1) =
          (if \<not> is_yuv_texture_available s then
             let a = s\<lparr>yuv_width := width buffer, yuv_height := height buffer\<rparr>;
                 b = a\<lparr>uv_buffer_offset := yuv_width a * yuv_height a\<rparr>;
                 c = b\<lparr>yuv_size := yuv_width b * yuv_height b + yuv_width b * yuv_height b div 2\<rparr>;
                 d = c\<lparr>yuv_buffer := resize (yuv_buffer c) (yuv_size c),
                        yuv_temp_buffer := resize (yuv_temp_buffer c) (yuv_size c),
                        rgb_buffer := resize (rgb_buffer c) (yuv_width c * yuv_height c * 3),
                        rgb_frame := Mat_create (yuv_height c) (yuv_width c)\<rparr>
             in ([LOGE ''%d %d'' [yuv_width a, yuv_height a],
                  glBindTexture (GetTextureId (yuv_drawable d)),
                  glTexImage2D GL_RGB (mat_cols (rgb_frame d)) (mat_rows (rgb_frame d))
                    (Some (mat_data (rgb_frame d)))],
                 d\<lparr>is_yuv_texture_available := True\<rparr>)
           else ([], s))
        in (case memcpy (yuv_temp_buffer s1) (data buffer) (yuv_size s1) of
              Inl e \<Rightarrow> Inl e
            | Inr t \<Rightarrow> Inr (ev1, s1\<lparr>yuv_temp_buffer := t, swap_buffer_signal := True\<rparr>)))"

subsection \<open>The depth callback: \<^verbatim>\<open>OnXYZijAvailable\<close>\<close>



subsection \<open>The conversion: \<^verbatim>\<open>ConvertYuvToRGBMat\<close>\<close>

text \<open>The column whose chroma pair is read for column \<open>j\<close>.\<close>
definition x_index :: "nat \<Rightarrow> nat" where
  "x_index j = (if j mod 2 \<noteq> 0 then j - 1 else j)"

text \<open>
  The position in \<open>yuv_buffer\<close> of the chroma pair read for the pixel in row \<open>i\<close> and
  column \<open>j\<close>: the source writes this sum twice, once as it is and once plus one.
\<close>
definition uv_index :: "Scene \<Rightarrow> nat \<Rightarrow> nat \<Rightarrow> nat" where
  "uv_index s i j = uv_buffer_offset s + (i div 2) * yuv_width s + x_index j"

text \<open>The body of the inner loop up to the call of \<^verbatim>\<open>Yuv2Rgb\<close>.\<close>
definition convert_pixel :: "Scene \<Rightarrow> nat \<Rightarrow> nat \<Rightarrow> fault + Vec3b" where
  "convert_pixel s i j =
     (case vec_at (yuv_buffer s) (i * yuv_width s + j) of
        Inl e \<Rightarrow> Inl e
      | Inr yValue \<Rightarrow>
     (case vec_at (yuv_buffer s) (uv_index s i j + 1) of
        Inl e \<Rightarrow> Inl e
      | Inr uValue \<Rightarrow>
     (case vec_at (yuv_buffer s) (uv_index s i j) of
        Inl e \<Rightarrow> Inl e
      | Inr vValue \<Rightarrow> Inr (Yuv2Rgb yValue uValue vValue))))"

text \<open>The inner loop over the columns of row \<open>i\<close>, from column \<open>j\<close> on.\<close>
function convert_cols :: "Scene \<Rightarrow> nat \<Rightarrow> nat \<Rightarrow> Mat \<Rightarrow> fault + Mat" where
  "convert_cols s i j m =
     (if j < yuv_width s then
        (case convert_pixel s i j of
           Inl e \<Rightarrow> Inl e
         | Inr rgb_dot \<Rightarrow>
             (case Mat_at_put m i j rgb_dot of
                Inl e \<Rightarrow> Inl e
              | Inr m' \<Rightarrow> convert_cols s i (j + 1) m'))
      else Inr m)"
  by pat_completeness auto
termination
  by (relation "measure (\<lambda>(s, i, j, m). yuv_width s - j)") auto

text \<open>The outer loop over the rows, from row \<open>i\<close> on.\<close>
function convert_rows :: "Scene \<Rightarrow> nat \<Rightarrow> Mat \<Rightarrow> fault + Mat" where
  "convert_rows s i m =
     (if i < yuv_height s then
        (case convert_cols s i 0 m of
           Inl e \<Rightarrow> Inl e
         | Inr m' \<Rightarrow> convert_rows s (i + 1) m')
      else Inr m)"
  by pat_completeness auto
termination
  by (relation "measure (\<lambda>(s, i, m). yuv_height s - i)") auto

text \<open>The block under the lock: \<^verbatim>\<open>std::swap\<close> of the two vectors when the flag is set.\<close>
definition swap_pending :: "Scene \<Rightarrow> Scene" where
  "swap_pending s =
     (if swap_buffer_signal s
      then s\<lparr>yuv_buffer := yuv_temp_buffer s, yuv_temp_buffer := yuv_buffer s,
              swap_buffer_signal := False\<rparr>
      else s)"

definition ConvertYuvToRGBMat :: "Scene \<Rightarrow> fault + Scene" where
  "ConvertYuvToRGBMat s =
     (let s1 = swap_pending s
      in case convert_rows s1 0 (rgb_frame s1) of
           Inl e \<Rightarrow> Inl e
         | Inr m \<Rightarrow> Inr (s1\<lparr>rgb_frame := m\<rparr>))"

definition BindRGBMatAsTexture :: "Scene \<Rightarrow> event list" where
  "BindRGBMatAsTexture s =
     [glBindTexture (GetTextureId (yuv_drawable s)),
      glTexImage2D GL_RGB (mat_cols (rgb_frame s)) (mat_rows (rgb_frame s))
        (Some (mat_data (rgb_frame s)))]"

subsection \<open>The render tick: \<^verbatim>\<open>Render\<close>\<close>

text \<open>
  \<^verbatim>\<open>SetTransformationMatrix\<close>, \<^verbatim>\<open>SetAnchorPosition\<close>, \<^verbatim>\<open>UpdateVertexArray\<close> and
  the \<^verbatim>\<open>Render\<close> methods of the drawables are computed inside \<^verbatim>\<open>tango_gl\<close>: the
  model records the call as an event.
\<close>
definition Render :: "Scene \<Rightarrow> pose \<Rightarrow> fault + event list \<times> Scene" where
  "Render s cur_pose_transformation =
     (if \<not> is_yuv_texture_available s then Inr ([], s)
      else
        (case ConvertYuvToRGBMat s of
           Inl e \<Rightarrow> Inl e
         | Inr s1 \<Rightarrow>
             let position = (case cur_pose_transformation of (c0, c1, c2, (x, y, z, w)) \<Rightarrow> (x, y, z));
                 ev1 = BindRGBMatAsTexture s1 @
                       [glEnable GL_DEPTH_TEST, glClearColor,
                        glClear [GL_DEPTH_BUFFER_BIT, GL_COLOR_BUFFER_BIT],
                        UpdateVertexArray position];
                 (ev2, s2) =
                   (if GetCameraType (gesture_camera s1) = kFirstPerson
                    then ([CameraSetTransformationMatrix cur_pose_transformation,
                           glDisable GL_DEPTH_TEST,
                           RenderDrawable YUVDrawable Identity Identity],
                          s1)
                    else ([CameraSetAnchorPosition position,
                           SetTransformationMatrix Frustum cur_pose_transformation,
                           RenderDrawable Frustum ArCameraProjectionMatrix GestureCameraViewMatrix,
                           SetTransformationMatrix Axis cur_pose_transformation,
                           RenderDrawable Axis ArCameraProjectionMatrix GestureCameraViewMatrix,
                           RenderDrawable Trace ArCameraProjectionMatrix GestureCameraViewMatrix,
                           RenderDrawable YUVDrawable ArCameraProjectionMatrix GestureCameraViewMatrix],
                          s1\<lparr>frustum := SetScale (frustum s1)
                               (1, camera_image_plane_ratio s1, image_plane_distance s1)\<rparr>));
                 ev3 = [glEnable GL_BLEND, glBlendFunc, glEnable GL_DEPTH_TEST,
                        glBindFramebuffer GL_FRAMEBUFFER (depth_frame_buffer s2),
                        glClearColor,
                        glClear [GL_COLOR_BUFFER_BIT, GL_DEPTH_BUFFER_BIT],
                        RenderPointCloud GestureCameraProjectionMatrix GestureCameraViewMatrix
                          PointCloudTransformation (vertices s2),
                        glBindFramebuffer GL_FRAMEBUFFER 0,
                        glBindFramebuffer GL_READ_FRAMEBUFFER (depth_frame_buffer s2),
                        glBindFramebuffer GL_DRAW_FRAMEBUFFER 0,
                        glBlitFramebuffer [GL_DEPTH_BUFFER_BIT],
                        glBindFramebuffer GL_FRAMEBUFFER 0,
                        RenderDrawable DepthDrawable Identity Identity,
                        RenderDrawable Grid ArCameraProjectionMatrix GestureCameraViewMatrix,
                        RenderDrawable Cube ArCameraProjectionMatrix GestureCameraViewMatrix]
             in Inr (ev1 @ ev2 @ ev3, s2)))"

subsection \<open>Auxiliary notions and example data\<close>

text \<open>
  Pixel \<open>(i, j)\<close> of the matrix \<open>m\<close> lies inside \<open>m\<close> and holds what the loop body
  computes for it from the scene \<open>s\<close>.
\<close>
definition converted :: "Scene \<Rightarrow> Mat \<Rightarrow> nat \<Rightarrow> nat \<Rightarrow> bool" where
  "converted s m i j \<longleftrightarrow>
     i < mat_rows m \<and> j < mat_cols m \<and> i * mat_cols m + j < length (mat_data m) \<and>
     convert_pixel s i j = Inr (Mat_at m i j)"

text \<open>
  The buffers of the scene are the ones the first delivery allocates for a frame of
  even width and height: the chroma plane starts after \<open>width * height\<close> luma bytes,
  both slots hold \<open>yuv_size\<close> bytes, and the RGB frame has \<open>yuv_height\<close> rows of
  \<open>yuv_width\<close> pixels.
\<close>
definition frame_ready :: "Scene \<Rightarrow> bool" where
  "frame_ready s \<longleftrightarrow>
     even (yuv_width s) \<and> even (yuv_height s) \<and>
     uv_buffer_offset s = yuv_width s * yuv_height s \<and>
     yuv_size s = yuv_width s * yuv_height s + yuv_width s * yuv_height s div 2 \<and>
     length (yuv_buffer s) = yuv_size s \<and> length (yuv_temp_buffer s) = yuv_size s \<and>
     mat_rows (rgb_frame s) = yuv_height s \<and> mat_cols (rgb_frame s) = yuv_width s \<and>
     length (mat_data (rgb_frame s)) = yuv_height s * yuv_width s"

text \<open>A scene before \<^verbatim>\<open>InitGLContent\<close>: no member holds anything yet.\<close>
definition example_raw :: Scene where
  "example_raw =
     \<lparr>depth_frame = Mat_create 0 0, depth_drawable = new_Drawable 0,
      depth_frame_buffer_depth_texture = 0, depth_frame_buffer = 0,
      yuv_drawable = new_Drawable 0,
      gesture_camera = \<lparr>camera_type = kFirstPerson, aspect_ratio = Finite 1\<rparr>,
      axis = new_Drawable 0, frustum = new_Drawable 0, trace = new_Drawable 0,
      grid = new_Drawable 0, cube = new_Drawable 0, point_cloud_drawable = new_Drawable 0,
      camera_image_plane_ratio = 0.75, image_plane_distance = 1,
      is_yuv_texture_available = False, swap_buffer_signal = False,
      yuv_width = 0, yuv_height = 0, uv_buffer_offset = 0, yuv_size = 0,
      yuv_buffer = [], yuv_temp_buffer = [], rgb_buffer = [],
      rgb_frame = Mat_create 0 0, vertices = []\<rparr>"

definition example_replies :: init_replies where
  "example_replies =
     \<lparr>depth_drawable_texture = 1, gen_texture = 2, gen_framebuffer = 3,
      framebuffer_status = GL_FRAMEBUFFER_COMPLETE, yuv_drawable_texture = 4,
      new_GestureCamera = \<lparr>camera_type = kFirstPerson, aspect_ratio = Finite 1\<rparr>\<rparr>"

text \<open>The same answers with status \<^verbatim>\<open>GL_FRAMEBUFFER_UNSUPPORTED\<close> (0x8CDD).\<close>
definition example_replies_unsupported :: init_replies where
  "example_replies_unsupported = example_replies\<lparr>framebuffer_status := 36061\<rparr>"

text \<open>
  The scene \<^verbatim>\<open>InitGLContent\<close> leaves from \<open>example_raw\<close> and \<open>example_replies\<close>, but
  for the depth frame, which \<^verbatim>\<open>InitGLContent\<close> sets to a matrix of 1280 by 720 pixels
  (see \<open>example_init\<close> below).
\<close>
definition example_scene :: Scene where
  "example_scene =
     example_raw\<lparr>depth_drawable := new_Drawable 1,
       depth_frame_buffer_depth_texture := 2, depth_frame_buffer := 3,
       yuv_drawable := new_Drawable 4,
       gesture_camera := \<lparr>camera_type = kThirdPerson, aspect_ratio = Finite 1\<rparr>,
       trace := SetColor (new_Drawable 0) kTraceColor,
       grid := SetPosition (SetColor (new_Drawable 0) kGridColor) (0, 0, 0),
       cube := SetColor (SetRotation (SetScale (SetPosition (new_Drawable 0) kCubePosition)
                 kCubeScale) kCubeRotation) kCubeColor\<rparr>"

text \<open>
  A frame of 4 by 2 pixels: eight luma bytes, then two chroma pairs (V, U). With the
  second pair, (255, 0), the red and the blue value of a pixel leave 0..255.
\<close>
definition example_frame :: TangoImageBuffer where
  "example_frame =
     \<lparr>width = 4, height = 2, format = TANGO_HAL_PIXEL_FORMAT_YCrCb_420_SP,
      data = [100, 110, 120, 130, 140, 150, 160, 170, 128, 128, 255, 0]\<rparr>"

text \<open>The scene after the first delivery, of \<open>example_frame\<close>.\<close>
definition example_pending :: Scene where
  "example_pending =
     example_scene\<lparr>is_yuv_texture_available := True, swap_buffer_signal := True,
       yuv_width := 4, yuv_height := 2, uv_buffer_offset := 8, yuv_size := 12,
       yuv_buffer := replicate 12 0,
       yuv_temp_buffer := [100, 110, 120, 130, 140, 150, 160, 170, 128, 128, 255, 0],
       rgb_buffer := replicate 24 0,
       rgb_frame := Mat_create 2 4\<rparr>"

text \<open>The scene after the conversion that follows.\<close>
definition example_converted :: Scene where
  "example_converted =
     example_pending\<lparr>swap_buffer_signal := False,
       yuv_buffer := [100, 110, 120, 130, 140, 150, 160, 170, 128, 128, 255, 0],
       yuv_temp_buffer := replicate 12 0,
       rgb_frame := \<lparr>mat_rows = 2, mat_cols = 4,
         mat_data = [(100, 100, 100), (110, 110, 110), (38, 74, 155), (48, 84, 165),
                     (140, 140, 140), (150, 150, 150), (78, 114, 195), (88, 124, 205)]\<rparr>\<rparr>"

text \<open>Two later frames of other sizes: 2 by 2 (6 bytes) and 4 by 4 (24 bytes).\<close>
definition example_small_frame :: TangoImageBuffer where
  "example_small_frame =
     \<lparr>width = 2, height = 2, format = TANGO_HAL_PIXEL_FORMAT_YCrCb_420_SP,
      data = [1, 2, 3, 4, 5, 6]\<rparr>"

definition example_large_frame :: TangoImageBuffer where
  "example_large_frame =
     \<lparr>width = 4, height = 4, format = TANGO_HAL_PIXEL_FORMAT_YCrCb_420_SP,
      data = [1, 2, 3, 4, 5, 6, 7, 8, 9, 10, 11, 12, 13, 14, 15, 16,
              17, 18, 19, 20, 21, 22, 23, 24]\<rparr>"

text \<open>A frame of 3 by 2 pixels: six luma bytes and three more.\<close>
definition example_odd_frame :: TangoImageBuffer where
  "example_odd_frame =
     \<lparr>width = 3, height = 2, format = TANGO_HAL_PIXEL_FORMAT_YCrCb_420_SP,
      data = [1, 2, 3, 4, 5, 6, 7, 8, 9]\<rparr>"

definition example_no_texture :: Scene where
  "example_no_texture = example_scene\<lparr>yuv_drawable := new_Drawable 0\<rparr>"



definition example_pose :: pose where
  "example_pose = ((1, 0, 0, 0), (0, 1, 0, 0), (0, 0, 1, 0), (5, 6, 7, 1))"

text \<open>What one render tick sends out on \<open>example_pending\<close> with \<open>example_pose\<close>.\<close>
definition example_events :: "event list" where
  "example_events =
     [glBindTexture 4,
      glTexImage2D GL_RGB 4 2
        (Some [(100, 100, 100), (110, 110, 110), (38, 74, 155), (48, 84, 165),
               (140, 140, 140), (150, 150, 150), (78, 114, 195), (88, 124, 205)]),
      glEnable GL_DEPTH_TEST, glClearColor,
      glClear [GL_DEPTH_BUFFER_BIT, GL_COLOR_BUFFER_BIT],
      UpdateVertexArray (5, 6, 7), CameraSetAnchorPosition (5, 6, 7),
      SetTransformationMatrix Frustum example_pose,
      RenderDrawable Frustum ArCameraProjectionMatrix GestureCameraViewMatrix,
      SetTransformationMatrix Axis example_pose,
      RenderDrawable Axis ArCameraProjectionMatrix GestureCameraViewMatrix,
      RenderDrawable Trace ArCameraProjectionMatrix GestureCameraViewMatrix,
      RenderDrawable YUVDrawable ArCameraProjectionMatrix GestureCameraViewMatrix,
      glEnable GL_BLEND, glBlendFunc, glEnable GL_DEPTH_TEST,
      glBindFramebuffer GL_FRAMEBUFFER 3, glClearColor,
      glClear [GL_COLOR_BUFFER_BIT, GL_DEPTH_BUFFER_BIT],
      RenderPointCloud GestureCameraProjectionMatrix GestureCameraViewMatrix
        PointCloudTransformation [],
      glBindFramebuffer GL_FRAMEBUFFER 0,
      glBindFramebuffer GL_READ_FRAMEBUFFER 3,
      glBindFramebuffer GL_DRAW_FRAMEBUFFER 0,
      glBlitFramebuffer [GL_DEPTH_BUFFER_BIT],
      glBindFramebuffer GL_FRAMEBUFFER 0,
      RenderDrawable DepthDrawable Identity Identity,
      RenderDrawable Grid ArCameraProjectionMatrix GestureCameraViewMatrix,
      RenderDrawable Cube ArCameraProjectionMatrix GestureCameraViewMatrix]"

declare convert_cols.simps [simp del]
declare convert_rows.simps [simp del]

section \<open>The colour converter\<close>

text \<open>
  The three values are multiples of \<open>10\<^sup>-\<^sup>6\<close>, and one of them is a whole number
  only when the chroma differences in it are 0; the \<^verbatim>\<open>double\<close> computation of the
  source is exact there and is off by less than \<open>10\<^sup>-\<^sup>1\<^sup>2\<close> elsewhere, so
  truncating the real value gives the integer the source truncates to.
\<close>

lemma uint_to_uint8: "uint (to_uint8 x) = trunc x mod 256"
  by (simp add: to_uint8_def uint_word_of_int)

text \<open>
  Claim C2. For every triple of bytes, the three bytes \<open>Yuv2Rgb\<close> returns are the values
  \<open>Y + 1.370705 (V - 128)\<close>, \<open>Y - 0.698001 (V - 128) - 0.337633 (U - 128)\<close> and
  \<open>Y + 1.732446 (U - 128)\<close>, truncated toward zero and reduced modulo 256: nothing is
  clamped, and a value outside 0..255 wraps around.
\<close>
theorem Yuv2Rgb_wraps:
  "case Yuv2Rgb yValue uValue vValue of
     (r, g, b) \<Rightarrow>
       uint r = trunc (real (unat yValue) + 1.370705 * (real (unat vValue) - 128)) mod 256 \<and>
       uint g = trunc (real (unat yValue) - 0.698001 * (real (unat vValue) - 128)
                        - 0.337633 * (real (unat uValue) - 128)) mod 256 \<and>
       uint b = trunc (real (unat yValue) + 1.732446 * (real (unat uValue) - 128)) mod 256"
  by (simp add: Yuv2Rgb_def uint_to_uint8)

theorem Yuv2Rgb_wraps_witness:
  "Yuv2Rgb 255 128 255 = (173, 166, 255) \<and>
   trunc (real (unat (255 :: uint8_t)) + 1.370705 * (real (unat (255 :: uint8_t)) - 128)) = 429 \<and>
   (429 :: int) mod 256 = 173 \<and>
   Yuv2Rgb 0 128 0 = (81, 89, 0) \<and>
   trunc (real (unat (0 :: uint8_t)) + 1.370705 * (real (unat (0 :: uint8_t)) - 128)) = - 175 \<and>
   (- 175 :: int) mod 256 = 81 \<and>
   Yuv2Rgb 120 130 120 = (109, 124, 123) \<and>
   trunc (real (unat (120 :: uint8_t)) + 1.370705 * (real (unat (120 :: uint8_t)) - 128)) = 109"
proof -
  have a: "Yuv2Rgb 255 128 255 = (173, 166, 255)" "Yuv2Rgb 0 128 0 = (81, 89, 0)"
    "Yuv2Rgb 120 130 120 = (109, 124, 123)"
    by (simp_all add: Yuv2Rgb_def to_uint8_def trunc_def)
  from Yuv2Rgb_wraps [where yValue = 255 and uValue = 128 and vValue = 255]
  show ?thesis by (simp add: a trunc_def)
qed

section \<open>The conversion loops\<close>


lemma pixel_index_inj:
  fixes c :: nat
  assumes "j < c" "j' < c" "i * c + j = i' * c + j'"
  shows "i = i' \<and> j = j'"
proof -
  have h1: "(i * c + j) div c = i" using assms(1) by simp
  have h2: "(i' * c + j') div c = i'" using assms(2) by simp
  have "i = i'" using h1 h2 assms(3) by metis
  with assms(3) show ?thesis by simp
qed

lemma Mat_at_put_Inr:
  assumes "Mat_at_put m i j v = Inr m'"
  shows "mat_rows m' = mat_rows m" "mat_cols m' = mat_cols m"
    "length (mat_data m') = length (mat_data m)"
    "i < mat_rows m" "j < mat_cols m" "i * mat_cols m + j < length (mat_data m)"
    "Mat_at m' i j = v"
  using assms
  by (simp_all add: Mat_at_put_def Mat_at_def split: if_splits, auto)

lemma Mat_at_put_other:
  assumes "Mat_at_put m i j v = Inr m'" "j' < mat_cols m" "i' \<noteq> i \<or> j' \<noteq> j"
  shows "Mat_at m' i' j' = Mat_at m i' j'"
proof -
  from assms(1) have j: "j < mat_cols m"
    and m': "m' = m\<lparr>mat_data := (mat_data m)[i * mat_cols m + j := v]\<rparr>"
    by (auto simp: Mat_at_put_def split: if_splits)
  have "i * mat_cols m + j \<noteq> i' * mat_cols m + j'"
    using pixel_index_inj [OF j assms(2)] assms(3) by blast
  then show ?thesis by (simp add: m' Mat_at_def)
qed

lemma Mat_at_put_same:
  assumes "i < mat_rows m" "j < mat_cols m" "i * mat_cols m + j < length (mat_data m)"
  shows "Mat_at_put m i j (Mat_at m i j) = Inr m"
  using assms by (simp add: Mat_at_put_def Mat_at_def)

lemma converted_cong:
  assumes "converted s m i j" "mat_rows m' = mat_rows m" "mat_cols m' = mat_cols m"
    "length (mat_data m') = length (mat_data m)" "Mat_at m' i j = Mat_at m i j"
  shows "converted s m' i j"
  using assms by (simp add: converted_def)

text \<open>
  The inner loop, started at column \<open>j\<close>: it keeps the shape of the matrix, leaves
  every pixel from column \<open>j\<close> on in row \<open>i\<close> converted, and touches nothing else.
\<close>
lemma convert_cols_Inr:
  "convert_cols s i j m = Inr m' \<Longrightarrow>
     mat_rows m' = mat_rows m \<and> mat_cols m' = mat_cols m \<and>
     length (mat_data m') = length (mat_data m) \<and>
     (\<forall>j'. j \<le> j' \<and> j' < yuv_width s \<longrightarrow> converted s m' i j') \<and>
     (\<forall>i' j'. j' < mat_cols m \<and> (i' \<noteq> i \<or> j' < j) \<longrightarrow> Mat_at m' i' j' = Mat_at m i' j')"
proof (induction s i j m arbitrary: m' rule: convert_cols.induct)
  case (1 s i j m)
  show ?case
  proof (cases "j < yuv_width s")
    case False
    with "1.prems" show ?thesis by (auto simp: convert_cols.simps)
  next
    case True
    from True "1.prems" obtain px m1 where
      px: "convert_pixel s i j = Inr px" and
      put: "Mat_at_put m i j px = Inr m1" and
      rest: "convert_cols s i (j + 1) m1 = Inr m'"
      by (auto simp: convert_cols.simps [of s i j m] split: sum.splits)
    note P = Mat_at_put_Inr [OF put]
    note IH = "1.IH" [OF True px put rest]
    have here: "converted s m' i j"
    proof -
      have "Mat_at m' i j = Mat_at m1 i j" using IH P by simp
      then show ?thesis using px P IH by (simp add: converted_def)
    qed
    have upper: "converted s m' i j'" if "j \<le> j'" "j' < yuv_width s" for j'
    proof (cases "j' = j")
      case True then show ?thesis using here by simp
    next
      case False
      then have "j + 1 \<le> j'" using that by simp
      then show ?thesis using IH that by simp
    qed
    have frame: "Mat_at m' i' j' = Mat_at m i' j'"
      if "j' < mat_cols m" "i' \<noteq> i \<or> j' < j" for i' j'
    proof -
      have "Mat_at m' i' j' = Mat_at m1 i' j'" using IH P that by auto
      also have "\<dots> = Mat_at m i' j'" using Mat_at_put_other [OF put, of j' i'] that by auto
      finally show ?thesis .
    qed
    show ?thesis using IH P upper frame by simp
  qed
qed

text \<open>The outer loop, started at row \<open>i\<close>: the same for all rows from \<open>i\<close> on.\<close>
lemma convert_rows_Inr:
  "convert_rows s i m = Inr m' \<Longrightarrow>
     mat_rows m' = mat_rows m \<and> mat_cols m' = mat_cols m \<and>
     length (mat_data m') = length (mat_data m) \<and>
     (\<forall>i' j'. i \<le> i' \<and> i' < yuv_height s \<and> j' < yuv_width s \<longrightarrow> converted s m' i' j') \<and>
     (\<forall>i' j'. j' < mat_cols m \<and> i' < i \<longrightarrow> Mat_at m' i' j' = Mat_at m i' j')"
proof (induction s i m arbitrary: m' rule: convert_rows.induct)
  case (1 s i m)
  show ?case
  proof (cases "i < yuv_height s")
    case False
    with "1.prems" show ?thesis by (auto simp: convert_rows.simps)
  next
    case True
    from True "1.prems" obtain m1 where
      row: "convert_cols s i 0 m = Inr m1" and
      rest: "convert_rows s (i + 1) m1 = Inr m'"
      by (auto simp: convert_rows.simps [of s i m] split: sum.splits)
    note C = convert_cols_Inr [OF row]
    note IH = "1.IH" [OF True row rest]
    have this_row: "converted s m' i j'" if "j' < yuv_width s" for j'
    proof -
      have c1: "converted s m1 i j'" using C that by simp
      then have "j' < mat_cols m1" by (simp add: converted_def)
      then have "Mat_at m' i j' = Mat_at m1 i j'" using IH by simp
      with c1 IH show ?thesis by (auto intro: converted_cong)
    qed
    have rows: "converted s m' i' j'" if "i \<le> i'" "i' < yuv_height s" "j' < yuv_width s" for i' j'
    proof (cases "i' = i")
      case True then show ?thesis using this_row that by simp
    next
      case False
      then have "i + 1 \<le> i'" using that by simp
      then show ?thesis using IH that by simp
    qed
    have frame: "Mat_at m' i' j' = Mat_at m i' j'" if "j' < mat_cols m" "i' < i" for i' j'
    proof -
      have "Mat_at m' i' j' = Mat_at m1 i' j'" using IH C that by simp
      also have "\<dots> = Mat_at m i' j'" using C that by simp
      finally show ?thesis .
    qed
    show ?thesis using IH C rows frame by simp
  qed
qed

text \<open>On a matrix whose pixels are converted already, the loops change nothing.\<close>
lemma convert_cols_fixed:
  "(\<forall>j'. j' < yuv_width s \<longrightarrow> converted s m i j') \<Longrightarrow> convert_cols s i j m = Inr m"
proof (induction s i j m rule: convert_cols.induct)
  case (1 s i j m)
  show ?case
  proof (cases "j < yuv_width s")
    case False
    then show ?thesis by (simp add: convert_cols.simps)
  next
    case True
    with "1.prems" have c: "converted s m i j" by simp
    then have px: "convert_pixel s i j = Inr (Mat_at m i j)"
      and put: "Mat_at_put m i j (Mat_at m i j) = Inr m"
      by (simp_all add: converted_def Mat_at_put_same)
    from "1.IH" [OF True px put "1.prems"] True px put
    show ?thesis by (simp add: convert_cols.simps [of s i j m])
  qed
qed

lemma convert_rows_fixed:
  "(\<forall>i' j'. i' < yuv_height s \<and> j' < yuv_width s \<longrightarrow> converted s m i' j') \<Longrightarrow>
   convert_rows s i m = Inr m"
proof (induction s i m rule: convert_rows.induct)
  case (1 s i m)
  show ?case
  proof (cases "i < yuv_height s")
    case False
    then show ?thesis by (simp add: convert_rows.simps)
  next
    case True
    with "1.prems" have row: "convert_cols s i 0 m = Inr m"
      by (intro convert_cols_fixed) simp
    from "1.IH" [OF True row "1.prems"] True row
    show ?thesis by (simp add: convert_rows.simps [of s i m])
  qed
qed

lemma ConvertYuvToRGBMat_Inr:
  assumes "ConvertYuvToRGBMat s = Inr s'"
  shows "\<exists>m. s' = (swap_pending s)\<lparr>rgb_frame := m\<rparr> \<and>
             convert_rows (swap_pending s) 0 (rgb_frame (swap_pending s)) = Inr m"
  using assms by (auto simp: ConvertYuvToRGBMat_def Let_def split: sum.splits)

lemma convert_pixel_rgb_frame [simp]:
  "convert_pixel (s\<lparr>rgb_frame := m\<rparr>) i j = convert_pixel s i j"
  by (simp add: convert_pixel_def uv_index_def cong: sum.case_cong)

lemma converted_rgb_frame [simp]:
  "converted (s\<lparr>rgb_frame := x\<rparr>) m i j = converted s m i j"
  by (simp add: converted_def)

lemma swap_pending_signal [simp]: "\<not> swap_buffer_signal (swap_pending s)"
  by (simp add: swap_pending_def)

lemma ConvertYuvToRGBMat_converted:
  assumes "ConvertYuvToRGBMat s = Inr s'" "i < yuv_height s'" "j < yuv_width s'"
  shows "converted s' (rgb_frame s') i j"
proof -
  from ConvertYuvToRGBMat_Inr [OF assms(1)] obtain m where
    s': "s' = (swap_pending s)\<lparr>rgb_frame := m\<rparr>" and
    m: "convert_rows (swap_pending s) 0 (rgb_frame (swap_pending s)) = Inr m"
    by blast
  from assms(2,3) have "i < yuv_height (swap_pending s)" "j < yuv_width (swap_pending s)"
    by (simp_all add: s')
  with convert_rows_Inr [OF m] have "converted (swap_pending s) m i j" by simp
  then show ?thesis by (simp add: s')
qed

lemma x_index_odd: "j mod 2 \<noteq> 0 \<Longrightarrow> x_index j = j - 1 \<and> x_index (j - 1) = j - 1"
  by (auto simp: x_index_def) presburger

lemma convert_pixel_Inr:
  assumes "convert_pixel s i j = Inr px"
  shows "i * yuv_width s + j < length (yuv_buffer s) \<and>
         uv_index s i j + 1 < length (yuv_buffer s) \<and>
         px = Yuv2Rgb (yuv_buffer s ! (i * yuv_width s + j))
                      (yuv_buffer s ! (uv_index s i j + 1))
                      (yuv_buffer s ! uv_index s i j)"
  using assms
  by (auto simp: convert_pixel_def vec_at_def split: sum.splits if_splits)

text \<open>
  On a ready scene every access of the loop body lies inside its array: the luma byte,
  the chroma pair, and the pixel of the RGB frame.
\<close>
lemma pixel_in_bounds:
  assumes "frame_ready s" "i < yuv_height s" "j < yuv_width s"
  shows "i * yuv_width s + j < yuv_height s * yuv_width s"
    and "i * yuv_width s + j < length (yuv_buffer s)"
    and "uv_index s i j + 1 < length (yuv_buffer s)"
proof -
  from assms(1) obtain k l where h: "yuv_height s = 2 * k" and w: "yuv_width s = 2 * l"
    by (auto simp: frame_ready_def elim!: evenE)
  have len: "length (yuv_buffer s) = yuv_width s * yuv_height s + yuv_width s * yuv_height s div 2"
    and off: "uv_buffer_offset s = yuv_width s * yuv_height s"
    using assms(1) by (simp_all add: frame_ready_def)
  have "i * yuv_width s + j < (i + 1) * yuv_width s" using assms(3) by simp
  also have "\<dots> \<le> yuv_height s * yuv_width s"
    using assms(2) by (intro mult_le_mono1) simp
  finally show luma: "i * yuv_width s + j < yuv_height s * yuv_width s" .
  then show "i * yuv_width s + j < length (yuv_buffer s)"
    by (simp add: len mult.commute)
  have x: "x_index j + 2 \<le> yuv_width s"
    using assms(3) w by (auto simp: x_index_def; presburger)
  have r: "i div 2 + 1 \<le> k" using assms(2) h by simp
  have half: "yuv_width s * yuv_height s div 2 = k * yuv_width s"
    by (simp add: h)
  have "(i div 2) * yuv_width s + x_index j + 1 < (i div 2 + 1) * yuv_width s"
    using x by simp
  also have "\<dots> \<le> k * yuv_width s"
    using r by (intro mult_le_mono1)
  finally have "(i div 2) * yuv_width s + x_index j + 1 < yuv_width s * yuv_height s div 2"
    by (simp add: half)
  then show "uv_index s i j + 1 < length (yuv_buffer s)"
    by (simp add: uv_index_def len off)
qed

lemma convert_pixel_ready:
  assumes "frame_ready s" "i < yuv_height s" "j < yuv_width s"
  shows "convert_pixel s i j =
           Inr (Yuv2Rgb (yuv_buffer s ! (i * yuv_width s + j))
                        (yuv_buffer s ! (uv_index s i j + 1))
                        (yuv_buffer s ! uv_index s i j))"
  using pixel_in_bounds [OF assms] by (simp add: convert_pixel_def vec_at_def)


text \<open>On a ready scene the loops reach the end: no access leaves an array.\<close>
lemma convert_cols_ready:
  assumes "frame_ready s" "i < yuv_height s"
  shows "mat_rows m = yuv_height s \<Longrightarrow> mat_cols m = yuv_width s \<Longrightarrow>
         length (mat_data m) = yuv_height s * yuv_width s \<Longrightarrow>
         \<exists>m'. convert_cols s i j m = Inr m'"
  using assms
proof (induction s i j m rule: convert_cols.induct)
  case (1 s i j m)
  show ?case
  proof (cases "j < yuv_width s")
    case False
    then show ?thesis by (simp add: convert_cols.simps)
  next
    case True
    from convert_pixel_ready [OF "1.prems"(4,5) True] obtain px where
      px: "convert_pixel s i j = Inr px" by blast
    have "i * mat_cols m + j < length (mat_data m)"
      using pixel_in_bounds(1) [OF "1.prems"(4,5) True] "1.prems"(2,3) by simp
    then obtain m1 where put: "Mat_at_put m i j px = Inr m1"
      using "1.prems"(1,2,5) True by (simp add: Mat_at_put_def)
    note P = Mat_at_put_Inr [OF put]
    from "1.IH" [OF True px put] P "1.prems"
    obtain m' where "convert_cols s i (j + 1) m1 = Inr m'" by auto
    then show ?thesis using True px put by (simp add: convert_cols.simps [of s i j m])
  qed
qed

lemma convert_rows_ready:
  assumes "frame_ready s"
  shows "mat_rows m = yuv_height s \<Longrightarrow> mat_cols m = yuv_width s \<Longrightarrow>
         length (mat_data m) = yuv_height s * yuv_width s \<Longrightarrow>
         \<exists>m'. convert_rows s i m = Inr m'"
  using assms
proof (induction s i m rule: convert_rows.induct)
  case (1 s i m)
  show ?case
  proof (cases "i < yuv_height s")
    case False
    then show ?thesis by (simp add: convert_rows.simps)
  next
    case True
    from convert_cols_ready [OF "1.prems"(4) True "1.prems"(1,2,3)] obtain m1 where
      row: "convert_cols s i 0 m = Inr m1" by blast
    note C = convert_cols_Inr [OF row]
    from "1.IH" [OF True row] C "1.prems"
    obtain m' where "convert_rows s (i + 1) m1 = Inr m'" by auto
    then show ?thesis using True row by (simp add: convert_rows.simps [of s i m])
  qed
qed

lemma frame_ready_swap_pending: "frame_ready s \<Longrightarrow> frame_ready (swap_pending s)"
  by (simp add: frame_ready_def swap_pending_def)

lemma ConvertYuvToRGBMat_ready:
  assumes "frame_ready s"
  shows "\<exists>s'. ConvertYuvToRGBMat s = Inr s' \<and> frame_ready s'"
proof -
  let ?t = "swap_pending s"
  have t: "frame_ready ?t" by (rule frame_ready_swap_pending [OF assms])
  then have shape: "mat_rows (rgb_frame ?t) = yuv_height ?t"
    "mat_cols (rgb_frame ?t) = yuv_width ?t"
    "length (mat_data (rgb_frame ?t)) = yuv_height ?t * yuv_width ?t"
    by (simp_all add: frame_ready_def)
  from convert_rows_ready [OF t shape] obtain m where
    m: "convert_rows ?t 0 (rgb_frame ?t) = Inr m" by blast
  from convert_rows_Inr [OF m] shape t have "frame_ready (?t\<lparr>rgb_frame := m\<rparr>)"
    by (simp add: frame_ready_def)
  then show ?thesis using m by (simp add: ConvertYuvToRGBMat_def Let_def)
qed

lemma example_ready: "frame_ready example_pending"
  by (simp add: frame_ready_def example_pending_def Mat_create_def)

lemma example_convert: "ConvertYuvToRGBMat example_pending = Inr example_converted"
  by code_simp

text \<open>
  With an odd width the last column of a row reads its chroma pair past the end of
  the buffer: the conversion of the frame of 3 by 2 pixels has no result.
\<close>
lemma example_odd_width:
  "(case OnFrameAvailable example_scene example_odd_frame of
      Inl e \<Rightarrow> False
    | Inr (ev, s) \<Rightarrow> ConvertYuvToRGBMat s = Inl OutOfBoundsRead)"
  by code_simp

text \<open>
  Claim C1. On every ready scene (the scene a delivery of a frame of even width and
  height leaves, see \<open>OnFrameAvailable_frame_ready\<close>) the conversion returns. Whenever
  it returns, every pixel of an odd column \<open>j\<close> in a row \<open>i\<close> of the frame was computed
  from the chroma pair at the same position of the active buffer as the pixel of column
  \<open>j - 1\<close>: the two positions are equal, the pair lies inside the buffer, and the two
  pixels of the output are \<open>Yuv2Rgb\<close> of their own luma byte and of that one pair (U at
  the position plus one, V at the position).
\<close>
theorem odd_column_reuses_chroma_pair:
  "(frame_ready s \<longrightarrow> (\<exists>s'. ConvertYuvToRGBMat s = Inr s')) \<and>
   (\<forall>s'. ConvertYuvToRGBMat s = Inr s' \<and>
         i < yuv_height s \<and> j < yuv_width s \<and> j mod 2 \<noteq> 0 \<longrightarrow>
         uv_index s' i j = uv_index s' i (j - 1) \<and>
         uv_index s' i (j - 1) + 1 < length (yuv_buffer s') \<and>
         Mat_at (rgb_frame s') i j =
           Yuv2Rgb (yuv_buffer s' ! (i * yuv_width s' + j))
                   (yuv_buffer s' ! (uv_index s' i (j - 1) + 1))
                   (yuv_buffer s' ! uv_index s' i (j - 1)) \<and>
         Mat_at (rgb_frame s') i (j - 1) =
           Yuv2Rgb (yuv_buffer s' ! (i * yuv_width s' + (j - 1)))
                   (yuv_buffer s' ! (uv_index s' i (j - 1) + 1))
                   (yuv_buffer s' ! uv_index s' i (j - 1)))"
proof (intro conjI impI allI)
  assume "frame_ready s"
  then show "\<exists>s'. ConvertYuvToRGBMat s = Inr s'"
    using ConvertYuvToRGBMat_ready by blast
next
  fix s'
  assume a: "ConvertYuvToRGBMat s = Inr s' \<and>
         i < yuv_height s \<and> j < yuv_width s \<and> j mod 2 \<noteq> 0"
  then have conv: "ConvertYuvToRGBMat s = Inr s'" and odd: "j mod 2 \<noteq> 0"
    and il: "i < yuv_height s" and jl: "j < yuv_width s" by simp_all
  from ConvertYuvToRGBMat_Inr [OF conv] obtain m where
    s': "s' = (swap_pending s)\<lparr>rgb_frame := m\<rparr>" by blast
  have dims: "yuv_height s' = yuv_height s" "yuv_width s' = yuv_width s"
    by (simp_all add: s' swap_pending_def)
  have i: "i < yuv_height s'" and j: "j < yuv_width s'" and j1: "j - 1 < yuv_width s'"
    using il jl dims by simp_all
  have idx: "uv_index s' i j = uv_index s' i (j - 1)"
    using x_index_odd [OF odd] by (simp add: uv_index_def)
  have "converted s' (rgb_frame s') i j"
    by (rule ConvertYuvToRGBMat_converted [OF conv i j])
  then have pj: "convert_pixel s' i j = Inr (Mat_at (rgb_frame s') i j)"
    by (simp add: converted_def)
  have "converted s' (rgb_frame s') i (j - 1)"
    by (rule ConvertYuvToRGBMat_converted [OF conv i j1])
  then have pj1: "convert_pixel s' i (j - 1) = Inr (Mat_at (rgb_frame s') i (j - 1))"
    by (simp add: converted_def)
  from convert_pixel_Inr [OF pj] convert_pixel_Inr [OF pj1] idx
  show "uv_index s' i j = uv_index s' i (j - 1)"
    and "uv_index s' i (j - 1) + 1 < length (yuv_buffer s')"
    and "Mat_at (rgb_frame s') i j =
           Yuv2Rgb (yuv_buffer s' ! (i * yuv_width s' + j))
                   (yuv_buffer s' ! (uv_index s' i (j - 1) + 1))
                   (yuv_buffer s' ! uv_index s' i (j - 1))"
    and "Mat_at (rgb_frame s') i (j - 1) =
           Yuv2Rgb (yuv_buffer s' ! (i * yuv_width s' + (j - 1)))
                   (yuv_buffer s' ! (uv_index s' i (j - 1) + 1))
                   (yuv_buffer s' ! uv_index s' i (j - 1))"
    by simp_all
qed

theorem odd_column_reuses_chroma_pair_witness:
  "frame_ready example_pending \<and>
   ConvertYuvToRGBMat example_pending = Inr example_converted \<and>
   (0::nat) < yuv_height example_pending \<and> (3::nat) < yuv_width example_pending \<and>
   (3::nat) mod 2 \<noteq> 0 \<and>
   uv_index example_converted 0 3 = 10 \<and> uv_index example_converted 0 (3 - 1) = 10 \<and>
   Mat_at (rgb_frame example_converted) 0 3 = Yuv2Rgb 130 0 255 \<and>
   Yuv2Rgb 130 0 255 = (48, 84, 165) \<and>
   Mat_at (rgb_frame example_converted) 0 (3 - 1) = Yuv2Rgb 120 0 255 \<and>
   Yuv2Rgb 120 0 255 = (38, 74, 155)"
proof -
  note h = example_convert
  have i: "(0::nat) < yuv_height example_pending"
    and j: "(3::nat) < yuv_width example_pending"
    by (simp_all add: example_pending_def)
  have odd: "(3::nat) mod 2 \<noteq> 0" by simp
  have ix: "uv_index example_converted 0 3 = 10" "uv_index example_converted 0 (3 - 1) = 10"
    by (simp_all add: uv_index_def x_index_def example_converted_def example_pending_def)
  have px: "Yuv2Rgb 130 0 255 = (48, 84, 165)" "Yuv2Rgb 120 0 255 = (38, 74, 155)"
    by (simp_all add: Yuv2Rgb_def to_uint8_def trunc_def)
  have buf: "yuv_buffer example_converted =
      [100, 110, 120, 130, 140, 150, 160, 170, 128, 128, 255, 0]"
    "yuv_width example_converted = 4"
    by (simp_all add: example_converted_def example_pending_def)
  from odd_column_reuses_chroma_pair [of example_pending 0 3] h i j odd
  have "Mat_at (rgb_frame example_converted) 0 3 =
           Yuv2Rgb (yuv_buffer example_converted ! (0 * yuv_width example_converted + 3))
                   (yuv_buffer example_converted ! (uv_index example_converted 0 (3 - 1) + 1))
                   (yuv_buffer example_converted ! uv_index example_converted 0 (3 - 1)) \<and>
         Mat_at (rgb_frame example_converted) 0 (3 - 1) =
           Yuv2Rgb (yuv_buffer example_converted ! (0 * yuv_width example_converted + (3 - 1)))
                   (yuv_buffer example_converted ! (uv_index example_converted 0 (3 - 1) + 1))
                   (yuv_buffer example_converted ! uv_index example_converted 0 (3 - 1))"
    by blast
  then have "Mat_at (rgb_frame example_converted) 0 3 = Yuv2Rgb 130 0 255 \<and>
         Mat_at (rgb_frame example_converted) 0 (3 - 1) = Yuv2Rgb 120 0 255"
    using ix by (simp add: buf)
  then show ?thesis using example_ready h i j ix px by simp
qed

text \<open>
  Claim C3. On every ready scene the conversion returns. Whenever a conversion returns,
  the swap flag is clear, and a second conversion right after it returns too and leaves
  the whole scene as the first one left it: no slot is swapped, the active buffer is the
  same, and the RGB frame holds the same bytes.
\<close>
theorem ConvertYuvToRGBMat_idempotent:
  "(frame_ready s \<longrightarrow> (\<exists>s1. ConvertYuvToRGBMat s = Inr s1)) \<and>
   (\<forall>s1. ConvertYuvToRGBMat s = Inr s1 \<longrightarrow>
         \<not> swap_buffer_signal s1 \<and> swap_pending s1 = s1 \<and> ConvertYuvToRGBMat s1 = Inr s1)"
proof (intro conjI impI allI)
  assume "frame_ready s"
  then show "\<exists>s1. ConvertYuvToRGBMat s = Inr s1"
    using ConvertYuvToRGBMat_ready by blast
next
  fix s1
  assume conv: "ConvertYuvToRGBMat s = Inr s1"
  from ConvertYuvToRGBMat_Inr [OF conv] obtain m where
    s1: "s1 = (swap_pending s)\<lparr>rgb_frame := m\<rparr>"
    by blast
  show flag: "\<not> swap_buffer_signal s1" by (simp add: s1)
  then show sw: "swap_pending s1 = s1" by (simp add: swap_pending_def)
  have "\<forall>i j. i < yuv_height s1 \<and> j < yuv_width s1 \<longrightarrow> converted s1 (rgb_frame s1) i j"
    using ConvertYuvToRGBMat_converted [OF conv] by blast
  then have "convert_rows s1 0 (rgb_frame s1) = Inr (rgb_frame s1)"
    by (rule convert_rows_fixed)
  then show "ConvertYuvToRGBMat s1 = Inr s1"
    by (simp add: ConvertYuvToRGBMat_def sw)
qed

theorem ConvertYuvToRGBMat_idempotent_witness:
  "frame_ready example_pending \<and>
   ConvertYuvToRGBMat example_pending = Inr example_converted \<and>
   swap_buffer_signal example_pending \<and>
   \<not> swap_buffer_signal example_converted \<and>
   ConvertYuvToRGBMat example_converted = Inr example_converted"
proof -
  note h = example_convert
  have "swap_buffer_signal example_pending" by (simp add: example_pending_def)
  with ConvertYuvToRGBMat_idempotent [of example_pending] h example_ready
  show ?thesis by simp
qed

section \<open>The video callback\<close>

lemma length_resize [simp]: "length (resize v n) = n"
  by (simp add: resize_def)

text \<open>
  A delivery leaves a ready scene: the first one when the frame has even width and
  height, a later one when the scene was ready before.
\<close>
lemma OnFrameAvailable_frame_ready:
  assumes "OnFrameAvailable s buffer = Inr (ev, s1)"
    and "is_yuv_texture_available s \<longrightarrow> frame_ready s"
    and "\<not> is_yuv_texture_available s \<longrightarrow> even (width buffer) \<and> even (height buffer)"
  shows "s1 = s \<or> frame_ready s1"
  using assms
  by (auto simp: OnFrameAvailable_def memcpy_def Let_def Mat_create_def frame_ready_def
      mult.commute split: if_splits)

lemma OnFrameAvailable_first_returns:
  assumes "GetTextureId (yuv_drawable s) \<noteq> 0"
    and "format buffer = TANGO_HAL_PIXEL_FORMAT_YCrCb_420_SP"
    and "\<not> is_yuv_texture_available s"
    and "even (width buffer)" and "even (height buffer)"
    and "width buffer * height buffer + width buffer * height buffer div 2 \<le> length (data buffer)"
  shows "\<exists>ev s1. OnFrameAvailable s buffer = Inr (ev, s1) \<and> frame_ready s1 \<and>
           is_yuv_texture_available s1 \<and> swap_buffer_signal s1 \<and>
           yuv_width s1 = width buffer \<and> yuv_height s1 = height buffer"
  using assms
  by (simp add: OnFrameAvailable_def memcpy_def Let_def Mat_create_def frame_ready_def
      mult.commute)

lemma example_deliver:
  "OnFrameAvailable example_scene example_frame =
     Inr ([LOGE ''%d %d'' [4, 2], glBindTexture 4,
           glTexImage2D GL_RGB 4 2 (Some (replicate 8 (0, 0, 0)))], example_pending)"
  by code_simp

text \<open>
  Claim C10. With texture id 0 on the video overlay, \<open>OnFrameAvailable\<close> returns the
  scene it was given, whatever the frame: one line goes to the error log, and neither
  the dimensions, nor the buffers, nor the swap flag change.
\<close>
theorem OnFrameAvailable_without_texture:
  assumes "GetTextureId (yuv_drawable s) = 0"
  shows "OnFrameAvailable s buffer = Inr ([LOGE ''yuv texture id not valid'' []], s)"
  using assms by (simp add: OnFrameAvailable_def)

theorem OnFrameAvailable_without_texture_witness:
  "GetTextureId (yuv_drawable example_no_texture) = 0 \<and>
   OnFrameAvailable example_no_texture example_frame =
     Inr ([LOGE ''yuv texture id not valid'' []], example_no_texture) \<and>
   \<not> is_yuv_texture_available example_no_texture \<and>
   yuv_temp_buffer example_no_texture = [] \<and>
   \<not> swap_buffer_signal example_no_texture"
proof -
  have h: "GetTextureId (yuv_drawable example_no_texture) = 0"
    by (simp add: example_no_texture_def GetTextureId_def new_Drawable_def)
  from OnFrameAvailable_without_texture [OF h, of example_frame] h
  show ?thesis by (simp add: example_no_texture_def example_scene_def example_raw_def)
qed

text \<open>
  Claim C5, as amended. The first accepted delivery latches the width and the height of
  its frame and sizes every buffer from them. A later accepted delivery, on any scene,
  is not compared with the latched dimensions: whatever width and height its frame
  declares, it changes nothing but the pending slot and the swap flag, and, when the
  frame's data holds at least the latched number of bytes \<open>yuv_size\<close>, copies exactly
  that many bytes of it into the pending slot and sets the swap flag.
\<close>
theorem OnFrameAvailable_latches_dimensions:
  assumes "GetTextureId (yuv_drawable s) \<noteq> 0"
    and "format buffer = TANGO_HAL_PIXEL_FORMAT_YCrCb_420_SP"
  shows "(\<not> is_yuv_texture_available s \<and>
          n = width buffer * height buffer + width buffer * height buffer div 2 \<and>
          n \<le> length (data buffer) \<longrightarrow>
            (case OnFrameAvailable s buffer of
               Inl e \<Rightarrow> False
             | Inr (ev, s1) \<Rightarrow>
                 is_yuv_texture_available s1 \<and>
                 yuv_width s1 = width buffer \<and> yuv_height s1 = height buffer \<and>
                 uv_buffer_offset s1 = width buffer * height buffer \<and> yuv_size s1 = n \<and>
                 length (yuv_buffer s1) = n \<and> length (yuv_temp_buffer s1) = n \<and>
                 length (rgb_buffer s1) = width buffer * height buffer * 3 \<and>
                 mat_rows (rgb_frame s1) = height buffer \<and>
                 mat_cols (rgb_frame s1) = width buffer \<and>
                 yuv_temp_buffer s1 = take n (data buffer) \<and> swap_buffer_signal s1)) \<and>
         (is_yuv_texture_available s \<and>
          yuv_size s \<le> length (data buffer) \<and> yuv_size s \<le> length (yuv_temp_buffer s) \<longrightarrow>
            OnFrameAvailable s buffer =
              Inr ([], s\<lparr>yuv_temp_buffer :=
                          take (yuv_size s) (data buffer) @
                          drop (yuv_size s) (yuv_temp_buffer s),
                        swap_buffer_signal := True\<rparr>))"
  using assms
  by (simp add: OnFrameAvailable_def memcpy_def Let_def Mat_create_def GetTextureId_def)

theorem OnFrameAvailable_latches_dimensions_witness:
  "GetTextureId (yuv_drawable example_scene) \<noteq> 0 \<and>
   \<not> is_yuv_texture_available example_scene \<and>
   format example_frame = TANGO_HAL_PIXEL_FORMAT_YCrCb_420_SP \<and>
   (12::nat) = width example_frame * height example_frame
                + width example_frame * height example_frame div 2 \<and>
   12 \<le> length (data example_frame) \<and>
   OnFrameAvailable example_scene example_frame =
     Inr ([LOGE ''%d %d'' [4, 2], glBindTexture 4,
           glTexImage2D GL_RGB 4 2 (Some (replicate 8 (0, 0, 0)))], example_pending) \<and>
   yuv_width example_pending = 4 \<and> yuv_height example_pending = 2 \<and>
   yuv_size example_pending = 12 \<and>
   GetTextureId (yuv_drawable example_converted) \<noteq> 0 \<and>
   format example_large_frame = TANGO_HAL_PIXEL_FORMAT_YCrCb_420_SP \<and>
   is_yuv_texture_available example_converted \<and>
   \<not> swap_buffer_signal example_converted \<and>
   yuv_size example_converted \<le> length (data example_large_frame) \<and>
   yuv_size example_converted \<le> length (yuv_temp_buffer example_converted) \<and>
   width example_large_frame = 4 \<and> height example_large_frame = 4 \<and>
   OnFrameAvailable example_converted example_large_frame =
     Inr ([], example_converted\<lparr>yuv_temp_buffer := [1, 2, 3, 4, 5, 6, 7, 8, 9, 10, 11, 12],
                                swap_buffer_signal := True\<rparr>)"
proof -
  have a: "GetTextureId (yuv_drawable example_scene) \<noteq> 0"
    by (simp add: example_scene_def GetTextureId_def new_Drawable_def)
  have b: "\<not> is_yuv_texture_available example_scene"
    by (simp add: example_scene_def example_raw_def)
  have c: "format example_frame = TANGO_HAL_PIXEL_FORMAT_YCrCb_420_SP"
    by (simp add: example_frame_def)
  have e: "(12::nat) = width example_frame * height example_frame
                + width example_frame * height example_frame div 2"
    by (simp add: example_frame_def)
  have f: "12 \<le> length (data example_frame)" by (simp add: example_frame_def)
  have dims: "yuv_width example_pending = 4" "yuv_height example_pending = 2"
    "yuv_size example_pending = 12"
    "width example_large_frame = 4" "height example_large_frame = 4"
    by (simp_all add: example_pending_def example_large_frame_def)
  have a': "GetTextureId (yuv_drawable example_converted) \<noteq> 0"
    by (simp add: example_converted_def example_pending_def example_scene_def
        GetTextureId_def new_Drawable_def)
  have d: "format example_large_frame = TANGO_HAL_PIXEL_FORMAT_YCrCb_420_SP"
    by (simp add: example_large_frame_def)
  have later: "is_yuv_texture_available example_converted"
    "\<not> swap_buffer_signal example_converted"
    "yuv_size example_converted = 12"
    "yuv_size example_converted \<le> length (data example_large_frame)"
    "yuv_size example_converted \<le> length (yuv_temp_buffer example_converted)"
    by (simp_all add: example_converted_def example_pending_def example_large_frame_def)
  have tk: "take 12 (data example_large_frame) = [1, 2, 3, 4, 5, 6, 7, 8, 9, 10, 11, 12]"
    "drop 12 (yuv_temp_buffer example_converted) = []"
    by (simp_all add: example_large_frame_def example_converted_def)
  have second: "OnFrameAvailable example_converted example_large_frame =
     Inr ([], example_converted\<lparr>yuv_temp_buffer := [1, 2, 3, 4, 5, 6, 7, 8, 9, 10, 11, 12],
                                swap_buffer_signal := True\<rparr>)"
    using OnFrameAvailable_latches_dimensions [OF a' d, of 0] later by (simp add: tk)
  show ?thesis using a b c e f dims a' d later second by (simp add: example_deliver)
qed

text \<open>
  Claim C5 as stated fails. After the first delivery (4 by 2 pixels, 12 bytes latched), a
  frame of 2 by 2 pixels is not rejected: the copy reads 12 bytes from its 6 bytes of
  data. A frame of 4 by 4 pixels is not rejected either: its first 12 bytes become the
  pending frame, with the latched dimensions unchanged.
\<close>
theorem OnFrameAvailable_other_size_counterexample:
  "yuv_width example_pending = 4 \<and> yuv_height example_pending = 2 \<and>
   yuv_size example_pending = 12 \<and> is_yuv_texture_available example_pending \<and>
   width example_small_frame = 2 \<and> length (data example_small_frame) = 6 \<and>
   OnFrameAvailable example_pending example_small_frame = Inl OutOfBoundsRead \<and>
   width example_large_frame = 4 \<and> height example_large_frame = 4 \<and>
   OnFrameAvailable example_pending example_large_frame =
     Inr ([], example_pending\<lparr>yuv_temp_buffer := [1, 2, 3, 4, 5, 6, 7, 8, 9, 10, 11, 12]\<rparr>)"
  by (simp add: OnFrameAvailable_def memcpy_def example_pending_def example_scene_def
      example_raw_def example_small_frame_def example_large_frame_def GetTextureId_def
      new_Drawable_def)

section \<open>The depth callback\<close>




section \<open>The camera mode\<close>

text \<open>
  Claim C7. After any sequence \<open>ms\<close> of mode changes from any scene, a change to
  \<open>kFirstPerson\<close> leaves the video overlay without a parent, with scale \<open>(1, 1, 1)\<close>,
  position \<open>(0, 0, 0)\<close> and the identity rotation \<open>quat(1, 0, 0, 0)\<close>.
\<close>
theorem SetCameraType_FirstPerson_overlay:
  "parent (yuv_drawable (SetCameraType (foldl SetCameraType s ms) kFirstPerson)) = None \<and>
   scale (yuv_drawable (SetCameraType (foldl SetCameraType s ms) kFirstPerson)) = (1, 1, 1) \<and>
   position (yuv_drawable (SetCameraType (foldl SetCameraType s ms) kFirstPerson)) = (0, 0, 0) \<and>
   rotation (yuv_drawable (SetCameraType (foldl SetCameraType s ms) kFirstPerson)) = (1, 0, 0, 0)"
  by (simp add: SetCameraType_def Let_def SetParent_def SetScale_def SetPosition_def
      SetRotation_def)

theorem SetCameraType_FirstPerson_overlay_witness:
  "parent (yuv_drawable (SetCameraType example_scene kThirdPerson)) = Some Axis \<and>
   scale (yuv_drawable (SetCameraType example_scene kThirdPerson)) = (1, 0.75, 1) \<and>
   position (yuv_drawable (SetCameraType example_scene kThirdPerson)) = (0, 0, - 1) \<and>
   parent (yuv_drawable (SetCameraType
     (foldl SetCameraType example_scene [kThirdPerson, kFirstPerson, kTopDown]) kFirstPerson)) = None \<and>
   scale (yuv_drawable (SetCameraType
     (foldl SetCameraType example_scene [kThirdPerson, kFirstPerson, kTopDown]) kFirstPerson)) = (1, 1, 1) \<and>
   position (yuv_drawable (SetCameraType
     (foldl SetCameraType example_scene [kThirdPerson, kFirstPerson, kTopDown]) kFirstPerson)) = (0, 0, 0) \<and>
   rotation (yuv_drawable (SetCameraType
     (foldl SetCameraType example_scene [kThirdPerson, kFirstPerson, kTopDown]) kFirstPerson)) = (1, 0, 0, 0)"
proof -
  have third: "parent (yuv_drawable (SetCameraType example_scene kThirdPerson)) = Some Axis \<and>
     scale (yuv_drawable (SetCameraType example_scene kThirdPerson)) = (1, 0.75, 1) \<and>
     position (yuv_drawable (SetCameraType example_scene kThirdPerson)) = (0, 0, - 1)"
    by (simp add: SetCameraType_def Let_def SetParent_def SetScale_def SetPosition_def
        SetRotation_def example_scene_def example_raw_def)
  from SetCameraType_FirstPerson_overlay
    [of example_scene "[kThirdPerson, kFirstPerson, kTopDown]"] third
  show ?thesis by simp
qed

section \<open>Initialisation and the render tick\<close>

lemma Mat_create_shape [simp]:
  "mat_rows (Mat_create r c) = r" "mat_cols (Mat_create r c) = c"
  by (simp_all add: Mat_create_def)

text \<open>
  The depth frame is written by \<open>InitGLContent\<close> and read by nothing else: the callbacks
  and the render tick carry it along.
\<close>
lemma convert_pixel_depth_frame [simp]:
  "convert_pixel (s\<lparr>depth_frame := d\<rparr>) i j = convert_pixel s i j"
  by (simp add: convert_pixel_def uv_index_def cong: sum.case_cong)

lemma convert_cols_depth_frame [simp]:
  "convert_cols (s\<lparr>depth_frame := d\<rparr>) i j m = convert_cols s i j m"
proof (induction s i j m rule: convert_cols.induct)
  case (1 s i j m)
  show ?case
    using "1.IH"
    by (auto simp: convert_cols.simps [of "s\<lparr>depth_frame := d\<rparr>" i j m]
        convert_cols.simps [of s i j m] split: sum.splits)
qed

lemma convert_rows_depth_frame [simp]:
  "convert_rows (s\<lparr>depth_frame := d\<rparr>) i m = convert_rows s i m"
proof (induction s i m rule: convert_rows.induct)
  case (1 s i m)
  show ?case
    using "1.IH"
    by (auto simp: convert_rows.simps [of "s\<lparr>depth_frame := d\<rparr>" i m]
        convert_rows.simps [of s i m] split: sum.splits)
qed

lemma swap_pending_depth_frame:
  "swap_pending (s\<lparr>depth_frame := d\<rparr>) = (swap_pending s)\<lparr>depth_frame := d\<rparr>"
  by (simp add: swap_pending_def)

lemma ConvertYuvToRGBMat_depth_frame:
  "ConvertYuvToRGBMat (s\<lparr>depth_frame := d\<rparr>) =
     (case ConvertYuvToRGBMat s of Inl e \<Rightarrow> Inl e | Inr t \<Rightarrow> Inr (t\<lparr>depth_frame := d\<rparr>))"
  by (simp add: ConvertYuvToRGBMat_def swap_pending_depth_frame Let_def split: sum.splits)

lemma Render_depth_frame:
  "Render (s\<lparr>depth_frame := d\<rparr>) p =
     (case Render s p of Inl e \<Rightarrow> Inl e | Inr (ev, t) \<Rightarrow> Inr (ev, t\<lparr>depth_frame := d\<rparr>))"
  by (simp add: Render_def ConvertYuvToRGBMat_depth_frame BindRGBMatAsTexture_def Let_def
      split: sum.splits prod.splits)

lemma OnFrameAvailable_depth_frame:
  "OnFrameAvailable (s\<lparr>depth_frame := d\<rparr>) b =
     (case OnFrameAvailable s b of Inl e \<Rightarrow> Inl e | Inr (ev, t) \<Rightarrow> Inr (ev, t\<lparr>depth_frame := d\<rparr>))"
  by (simp add: OnFrameAvailable_def Let_def split: sum.splits prod.splits)

lemma example_render:
  "Render example_pending example_pose =
     Inr (example_events,
          example_converted\<lparr>frustum := SetScale (new_Drawable 0) (1, 0.75, 1)\<rparr>)"
  by code_simp

lemma example_init:
  "snd (InitGLContent example_raw example_replies) =
     example_scene\<lparr>depth_frame := Mat_create 1280 720\<rparr>"
  by (simp add: InitGLContent_def Let_def example_scene_def example_raw_def
      example_replies_def kHeightOffset_def)

text \<open>
  Claim C8, as amended. When the framebuffer fails the completeness check,
  \<open>InitGLContent\<close> writes one line to the error log and does everything else as when
  the check passes: the events before that line are the same and the scene it leaves
  is the same, so nothing in the scene records the failure.
\<close>
theorem InitGLContent_incomplete_framebuffer:
  assumes "framebuffer_status gl \<noteq> GL_FRAMEBUFFER_COMPLETE"
  shows "fst (InitGLContent s gl) =
           fst (InitGLContent s (gl\<lparr>framebuffer_status := GL_FRAMEBUFFER_COMPLETE\<rparr>)) @
             [LOGE ''ERROR %d in fb %d '' [gen_framebuffer gl]] \<and>
         snd (InitGLContent s gl) =
           snd (InitGLContent s (gl\<lparr>framebuffer_status := GL_FRAMEBUFFER_COMPLETE\<rparr>))"
  using assms by (simp add: InitGLContent_def Let_def)

theorem InitGLContent_incomplete_framebuffer_witness:
  "framebuffer_status example_replies_unsupported \<noteq> GL_FRAMEBUFFER_COMPLETE \<and>
   fst (InitGLContent example_raw example_replies_unsupported) =
     fst (InitGLContent example_raw example_replies) @ [LOGE ''ERROR %d in fb %d '' [3]] \<and>
   snd (InitGLContent example_raw example_replies_unsupported) =
     snd (InitGLContent example_raw example_replies)"
proof -
  have h: "framebuffer_status example_replies_unsupported \<noteq> GL_FRAMEBUFFER_COMPLETE"
    by (simp add: example_replies_unsupported_def GL_FRAMEBUFFER_COMPLETE_def)
  have ok: "example_replies_unsupported\<lparr>framebuffer_status := GL_FRAMEBUFFER_COMPLETE\<rparr> =
      example_replies"
    by (simp add: example_replies_unsupported_def example_replies_def)
  have fb: "gen_framebuffer example_replies_unsupported = 3"
    by (simp add: example_replies_unsupported_def example_replies_def)
  from InitGLContent_incomplete_framebuffer [OF h, of example_raw] h
  show ?thesis by (simp add: ok fb)
qed

text \<open>
  Claim C8 as stated fails. With the status \<^verbatim>\<open>GL_FRAMEBUFFER_UNSUPPORTED\<close>,
  \<open>InitGLContent\<close> leaves the scene it leaves on success; the first frame is then
  accepted, and the render tick that follows binds framebuffer 3, the one that failed
  the check, renders the point cloud into it and blits its depth: the depth composite
  is not switched off, and no caller is told.
\<close>
theorem InitGLContent_incomplete_framebuffer_counterexample:
  "framebuffer_status example_replies_unsupported \<noteq> GL_FRAMEBUFFER_COMPLETE \<and>
   gen_framebuffer example_replies_unsupported = 3 \<and>
   snd (InitGLContent example_raw example_replies_unsupported) =
     example_scene\<lparr>depth_frame := Mat_create 1280 720\<rparr> \<and>
   snd (InitGLContent example_raw example_replies) =
     example_scene\<lparr>depth_frame := Mat_create 1280 720\<rparr> \<and>
   OnFrameAvailable (example_scene\<lparr>depth_frame := Mat_create 1280 720\<rparr>) example_frame =
     Inr ([LOGE ''%d %d'' [4, 2], glBindTexture 4,
           glTexImage2D GL_RGB 4 2 (Some (replicate 8 (0, 0, 0)))],
          example_pending\<lparr>depth_frame := Mat_create 1280 720\<rparr>) \<and>
   Render (example_pending\<lparr>depth_frame := Mat_create 1280 720\<rparr>) example_pose =
     Inr (example_events,
          example_converted\<lparr>frustum := SetScale (new_Drawable 0) (1, 0.75, 1),
            depth_frame := Mat_create 1280 720\<rparr>) \<and>
   glBindFramebuffer GL_FRAMEBUFFER 3 \<in> set example_events \<and>
   RenderPointCloud GestureCameraProjectionMatrix GestureCameraViewMatrix
     PointCloudTransformation [] \<in> set example_events \<and>
   glBlitFramebuffer [GL_DEPTH_BUFFER_BIT] \<in> set example_events"
proof -
  have st: "framebuffer_status example_replies_unsupported \<noteq> GL_FRAMEBUFFER_COMPLETE"
    "gen_framebuffer example_replies_unsupported = 3"
    by (simp_all add: example_replies_unsupported_def example_replies_def
        GL_FRAMEBUFFER_COMPLETE_def)
  have bad: "snd (InitGLContent example_raw example_replies_unsupported) =
      example_scene\<lparr>depth_frame := Mat_create 1280 720\<rparr>"
    by (simp add: InitGLContent_def Let_def example_scene_def example_raw_def
        example_replies_def example_replies_unsupported_def kHeightOffset_def)
  have deliver: "OnFrameAvailable (example_scene\<lparr>depth_frame := Mat_create 1280 720\<rparr>)
      example_frame =
      Inr ([LOGE ''%d %d'' [4, 2], glBindTexture 4,
            glTexImage2D GL_RGB 4 2 (Some (replicate 8 (0, 0, 0)))],
           example_pending\<lparr>depth_frame := Mat_create 1280 720\<rparr>)"
    by (simp add: OnFrameAvailable_depth_frame example_deliver)
  have render: "Render (example_pending\<lparr>depth_frame := Mat_create 1280 720\<rparr>) example_pose =
      Inr (example_events,
           example_converted\<lparr>frustum := SetScale (new_Drawable 0) (1, 0.75, 1),
             depth_frame := Mat_create 1280 720\<rparr>)"
    by (simp add: Render_depth_frame example_render)
  have ev: "glBindFramebuffer GL_FRAMEBUFFER 3 \<in> set example_events"
    "RenderPointCloud GestureCameraProjectionMatrix GestureCameraViewMatrix
       PointCloudTransformation [] \<in> set example_events"
    "glBlitFramebuffer [GL_DEPTH_BUFFER_BIT] \<in> set example_events"
    by (simp_all add: example_events_def)
  from st bad example_init deliver render ev show ?thesis by simp
qed

text \<open>
  Claim C9 does not hold of the code. With height 0, \<open>SetupViewPort\<close> writes its line
  to the error log and goes on: the aspect ratio of the camera becomes 640 / 0, an
  infinity, and the viewport is applied with height 0.
\<close>
theorem SetupViewPort_zero_height:
  "SetupViewPort example_scene 0 0 640 0 =
     ([LOGE ''Setup graphic height not valid'' [], glViewport 0 0 640 0],
      example_scene\<lparr>gesture_camera :=
        \<lparr>camera_type = kThirdPerson, aspect_ratio = PlusInfinity\<rparr>\<rparr>) \<and>
   snd (SetupViewPort example_scene 0 0 640 0) \<noteq> example_scene"
  by (simp add: SetupViewPort_def SetAspectRatio_def float_div_def example_scene_def
      example_raw_def)

end
